theory Spec2Isabelle
  imports Main "HOL-Library.AList"
begin

text \<open>
  A shallow embedding of the CRUD engine (impl.go, sqlbuilder.go) and of the result
  fetcher (package fetch) of the ORM, with the properties of its specification that
  were checked against it. Functions keep the names of the source; a loop of the
  source is a recursive function named after the function it belongs to; what a
  function changes (a buffer, a statement, the receiver, the rows) is passed in and
  returned.
\<close>

section \<open>Errors\<close>

text \<open>
  Every error the modelled functions return is a constructor; a run-time panic of the
  Go program (a reflect call on a value of the wrong kind) is the value \<open>Panic\<close>.
  \<open>ErrOther\<close> stands for an error produced outside the modelled code (the model
  compiler, the driver, a user hook).
\<close>

datatype error =
    ErrInvalidKind
  | ErrNoWhereKey
  | ErrNotStruct
  | ErrFieldNotFound string
  | ErrNoColumns
  | ErrMixedTypes
  | ErrUnknownColumn string
  | ErrDuplicateName string
  | ErrSchema string string
  | ErrOther string
  | Panic

section \<open>The CRUD engine: values, columns, models\<close>

text \<open>
  A field value as \<open>field.Interface()\<close> returns it: an integer, a string, a boolean,
  a byte slice (\<open>[]byte\<close>) or a \<open>sql.RawBytes\<close>. The constructor stands for the
  dynamic type, the argument for the value; a nil byte slice is the empty one.
\<close>

datatype val = VInt int | VString string | VBool bool | VBytes string | VRawBytes string

datatype gotype = TInt | TString | TBool | TBytes | TRawBytes

fun reflect_Zero :: "gotype \<Rightarrow> val" where
  "reflect_Zero TInt = VInt 0"
| "reflect_Zero TString = VString []"
| "reflect_Zero TBool = VBool False"
| "reflect_Zero TBytes = VBytes []"
| "reflect_Zero TRawBytes = VRawBytes []"

text \<open>
  Go's \<open>==\<close> on two interface values, as in \<open>col.Zero == field.Interface()\<close>: values of
  different dynamic types are unequal; values of one comparable type are compared; on
  two values of one type that is not comparable (a slice type) the comparison panics.
\<close>

fun iface_eq :: "val \<Rightarrow> val \<Rightarrow> error + bool" where
  "iface_eq (VBytes a) (VBytes b) = Inl Panic"
| "iface_eq (VRawBytes a) (VRawBytes b) = Inl Panic"
| "iface_eq a b = Inr (a = b)"

text \<open>
  A column. \<open>GoType\<close> is read by impl.go (\<open>reflect.Zero(col.GoType)\<close>), the cached
  \<open>Zero\<close> by sqlbuilder.go. The method \<open>IsAI()\<close> is not in the sources; its result is
  kept as a field of the column.
\<close>

record column =
  Name :: string
  GoName :: string
  GoType :: gotype
  Zero :: val
  HasDefault :: bool
  IsAI :: bool

text \<open>
  A model. \<open>Cols\<close> and \<open>UniqueIndexes\<close> are Go maps: each is listed here in the order
  in which a \<open>range\<close> statement visits its entries. Go leaves that order unspecified,
  so a property of the code has to hold for every order of these lists.
\<close>

record model =
  ModelName :: string
  Cols :: "(string \<times> column) list"
  PK :: "column list"
  UniqueIndexes :: "(string \<times> column list) list"

text \<open>
  A value handed to the engine: a struct (its type name and its fields by name), a
  pointer to a value, or a value that is no struct once the pointers are followed
  (a nil pointer among them).
\<close>

datatype obj = Struct string "(string \<times> val) list" | Ptr obj | NonStruct string

text \<open>\<open>for rval.Kind() == reflect.Ptr { rval = rval.Elem() }\<close>\<close>

fun deref :: "obj \<Rightarrow> obj" where
  "deref (Ptr v) = deref v"
| "deref v = v"

fun isStruct :: "obj \<Rightarrow> bool" where
  "isStruct (Struct t fs) = True"
| "isStruct v = False"

fun TypeOf :: "obj \<Rightarrow> string" where
  "TypeOf (Struct t fs) = t"
| "TypeOf (NonStruct t) = t"
| "TypeOf (Ptr v) = CHR ''*'' # TypeOf v"

text \<open>
  \<open>rval.FieldByName(name)\<close>: \<open>None\<close> is the invalid Value of a missing field; on a
  Value that is no struct reflect panics.
\<close>

fun FieldByName :: "obj \<Rightarrow> string \<Rightarrow> error + val option" where
  "FieldByName (Struct t fs) n = Inr (map_of fs n)"
| "FieldByName v n = Inl Panic"

section \<open>impl.go\<close>

text \<open>
  The engine as impl.go uses it: the dialect's \<open>Quote\<close> (the text it writes for an
  identifier), the table prefix, and the driver's answer to \<open>Exec\<close>. Executed
  statements are collected in a log, which is the effect of a call on the database.
\<close>

record engine =
  Quote :: "string \<Rightarrow> string"
  Prefix :: string
  Exec :: "string \<Rightarrow> val list \<Rightarrow> error option"

type_synonym exec_log = "(string \<times> val list) list"

text \<open>\<open>sql.Truncate(sql.Len() - n)\<close>, for a buffer of at least \<open>n\<close> bytes.\<close>

definition truncate_last :: "nat \<Rightarrow> string \<Rightarrow> string" where
  "truncate_last n s = take (length s - n) s"

fun checkCols_loop :: "column list \<Rightarrow> obj \<Rightarrow> error + bool" where
  "checkCols_loop [] rval = Inr True"
| "checkCols_loop (col # cols) rval =
     (case FieldByName rval (GoName col) of
        Inl e \<Rightarrow> Inl e
      | Inr None \<Rightarrow> Inr False
      | Inr (Some field) \<Rightarrow>
          (case iface_eq (reflect_Zero (GoType col)) field of
             Inl e \<Rightarrow> Inl e
           | Inr True \<Rightarrow> Inr False
           | Inr False \<Rightarrow> checkCols_loop cols rval))"

definition checkCols :: "column list \<Rightarrow> obj \<Rightarrow> error + bool" where
  "checkCols cols rval = (if length cols = 0 then Inr False else checkCols_loop cols rval)"

text \<open>
  The two loops of \<open>where\<close> in impl.go that write the conditions. The fields were
  checked by \<open>checkCols\<close> before; a missing field would make \<open>Interface()\<close> panic.
\<close>

fun where_pk_loop :: "engine \<Rightarrow> obj \<Rightarrow> column list \<Rightarrow> string \<times> val list \<Rightarrow> error + (string \<times> val list)" where
  "where_pk_loop e rval [] (sql, ret) = Inr (sql, ret)"
| "where_pk_loop e rval (col # cols) (sql, ret) =
     (case FieldByName rval (GoName col) of
        Inr (Some field) \<Rightarrow>
          where_pk_loop e rval cols (sql @ Quote e (Name col) @ ''=?'', ret @ [field])
      | _ \<Rightarrow> Inl Panic)"

fun where_unique_loop :: "engine \<Rightarrow> obj \<Rightarrow> column list \<Rightarrow> string \<times> val list \<Rightarrow> error + (string \<times> val list)" where
  "where_unique_loop e rval [] (sql, ret) = Inr (sql, ret)"
| "where_unique_loop e rval (col # cols) (sql, ret) =
     (case FieldByName rval (GoName col) of
        Inr (Some field) \<Rightarrow>
          where_unique_loop e rval cols (sql @ Quote e (Name col) @ ''=?'' @ '' AND '', ret @ [field])
      | _ \<Rightarrow> Inl Panic)"

fun where_indexes :: "engine \<Rightarrow> string \<Rightarrow> (string \<times> column list) list \<Rightarrow> obj \<Rightarrow> error + (string \<times> val list)" where
  "where_indexes e sql [] rval = Inl ErrNoWhereKey"
| "where_indexes e sql ((name, cols) # rest) rval =
     (case checkCols cols rval of
        Inl err \<Rightarrow> Inl err
      | Inr False \<Rightarrow> where_indexes e sql rest rval
      | Inr True \<Rightarrow>
          (case where_unique_loop e rval cols (sql @ '' WHERE '', []) of
             Inl err \<Rightarrow> Inl err
           | Inr (sql', ret) \<Rightarrow> Inr (truncate_last 5 sql', ret)))"

text \<open>
  \<open>where(e, sql, m, rval)\<close> of impl.go: the buffer after the call and the arguments,
  or the error (the buffer is then as it was).
\<close>

definition where_impl :: "engine \<Rightarrow> string \<Rightarrow> model \<Rightarrow> obj \<Rightarrow> error + (string \<times> val list)" where
  "where_impl e sql m rval =
     (case checkCols (PK m) rval of
        Inl err \<Rightarrow> Inl err
      | Inr True \<Rightarrow> where_pk_loop e rval (PK m) (sql @ '' WHERE '', [])
      | Inr False \<Rightarrow> where_indexes e sql (UniqueIndexes m) rval)"

text \<open>The column loop of \<open>insertMult\<close>.\<close>

fun insertMult_cols :: "obj \<Rightarrow> (string \<times> column) list \<Rightarrow> string list \<times> val list \<Rightarrow> error + (string list \<times> val list)" where
  "insertMult_cols rval [] (keys, vals) = Inr (keys, vals)"
| "insertMult_cols rval ((name, col) # rest) (keys, vals) =
     (case FieldByName rval (GoName col) of
        Inl err \<Rightarrow> Inl err
      | Inr None \<Rightarrow> Inl (ErrFieldNotFound (GoName col))
      | Inr (Some field) \<Rightarrow>
          (case iface_eq (reflect_Zero (GoType col)) field of
             Inl err \<Rightarrow> Inl err
           | Inr isZero \<Rightarrow>
               if isZero \<and> (IsAI col \<or> HasDefault col)
               then insertMult_cols rval rest (keys, vals)
               else insertMult_cols rval rest (keys @ [name], vals @ [field])))"

text \<open>
  The body of the loop of \<open>insertMult\<close> for one element of \<open>objs\<close>, up to the call of
  \<open>Exec\<close>: the statement and its arguments. \<open>newModel\<close> is not in the sources and is a
  parameter.
\<close>

definition insertOne :: "engine \<Rightarrow> (obj \<Rightarrow> error + model) \<Rightarrow> obj \<Rightarrow> error + (string \<times> val list)" where
  "insertOne e newModel v =
     (case newModel v of
        Inl err \<Rightarrow> Inl err
      | Inr m \<Rightarrow>
          let rval = deref v in
          if \<not> isStruct rval then Inl ErrNotStruct
          else (case insertMult_cols rval (Cols m) ([], []) of
                  Inl err \<Rightarrow> Inl err
                | Inr (keys, vals) \<Rightarrow>
                    if length keys = 0 then Inl ErrNoColumns
                    else
                      let sql1 = ''INSERT INTO '' @ Quote e (Prefix e @ ModelName m) @ ''(''
                                 @ concat (map (\<lambda>col. Quote e col @ '','') keys);
                          sql2 = truncate_last 1 sql1 @ '')VALUES(''
                                 @ concat (map (\<lambda>_. ''?,'') vals);
                          sql3 = truncate_last 1 sql2 @ '')''
                      in Inr (sql3, vals)))"

fun insertMult :: "engine \<Rightarrow> (obj \<Rightarrow> error + model) \<Rightarrow> obj list \<Rightarrow> exec_log \<Rightarrow> error option \<times> exec_log" where
  "insertMult e newModel [] log = (None, log)"
| "insertMult e newModel (v # objs) log =
     (case insertOne e newModel v of
        Inl err \<Rightarrow> (Some err, log)
      | Inr (sql, vals) \<Rightarrow>
          (case Exec e sql vals of
             Some err \<Rightarrow> (Some err, log @ [(sql, vals)])
           | None \<Rightarrow> insertMult e newModel objs (log @ [(sql, vals)])))"




section \<open>sqlbuilder.go\<close>

text \<open>
  Modelled from the spec: the statement builder (package sqlbuilder, "raw SQL composition
  helpers, consumed as a statement builder interface") is not in the sources. A statement
  is modelled as the record of the calls made on it: \<open>KeyValue\<close> adds a column and its
  value to the first values tuple, \<open>Values\<close> adds one more values tuple, \<open>Set\<close> adds a
  column to set, and \<open>WhereStmt().And\<close> adds one condition to the conjunction of the
  WHERE clause.
\<close>

record InsertStmt =
  itable :: string
  icols :: "string list"
  iargs :: "val list list"

definition Insert :: "string \<Rightarrow> InsertStmt" where
  "Insert tbl = \<lparr>itable = tbl, icols = [], iargs = []\<rparr>"

definition Table :: "InsertStmt \<Rightarrow> string \<Rightarrow> InsertStmt" where
  "Table sql tbl = sql\<lparr>itable := tbl\<rparr>"

definition KeyValue :: "InsertStmt \<Rightarrow> string \<Rightarrow> val \<Rightarrow> InsertStmt" where
  "KeyValue sql col v =
     sql\<lparr>icols := icols sql @ [col],
         iargs := (case iargs sql of [] \<Rightarrow> [[v]] | r # rs \<Rightarrow> (r @ [v]) # rs)\<rparr>"

definition Values :: "InsertStmt \<Rightarrow> val list \<Rightarrow> InsertStmt" where
  "Values sql vals = sql\<lparr>iargs := iargs sql @ [vals]\<rparr>"

type_synonym WhereStmt = "(string \<times> val) list"

definition And :: "WhereStmt \<Rightarrow> string \<Rightarrow> val \<Rightarrow> WhereStmt" where
  "And w cond v = w @ [(cond, v)]"

record UpdateStmt =
  utable :: string
  usets :: "(string \<times> val) list"
  uwhere :: WhereStmt


definition Set_col :: "UpdateStmt \<Rightarrow> string \<Rightarrow> val \<Rightarrow> UpdateStmt" where
  "Set_col sql col v = sql\<lparr>usets := usets sql @ [(col, v)]\<rparr>"

text \<open>\<open>getModel\<close>; \<open>core.NewModel\<close> is not in the sources and is a parameter.\<close>

definition getModel :: "(obj \<Rightarrow> error + model) \<Rightarrow> obj \<Rightarrow> error + (model \<times> obj)" where
  "getModel NewModel v =
     (case NewModel v of Inl err \<Rightarrow> Inl err | Inr m \<Rightarrow> Inr (m, deref v))"

text \<open>
  The closure \<open>getKV\<close> of \<open>where\<close>: it works on the captured slices \<open>keys\<close> and \<open>vals\<close>,
  which are passed in and returned.
\<close>

fun getKV_loop :: "obj \<Rightarrow> column list \<Rightarrow> string list \<times> val list \<Rightarrow> error + (bool \<times> string list \<times> val list)" where
  "getKV_loop rval [] (keys, vals) = Inr (True, keys, vals)"
| "getKV_loop rval (col # cols) (keys, vals) =
     (case FieldByName rval (GoName col) of
        Inl err \<Rightarrow> Inl err
      | Inr None \<Rightarrow> Inr (False, [], [])
      | Inr (Some field) \<Rightarrow>
          (case iface_eq (Zero col) field of
             Inl err \<Rightarrow> Inl err
           | Inr True \<Rightarrow> Inr (False, [], [])
           | Inr False \<Rightarrow> getKV_loop rval cols (keys @ [Name col], vals @ [field])))"

definition getKV :: "obj \<Rightarrow> column list \<Rightarrow> string list \<times> val list \<Rightarrow> error + (bool \<times> string list \<times> val list)" where
  "getKV rval cols kv =
     (if length cols = 0 then Inr (False, kv) else getKV_loop rval cols kv)"

text \<open>\<open>for _, cols := range m.UniqueIndexes { if getKV(cols) { break } }\<close>\<close>

fun where_indexes_kv :: "obj \<Rightarrow> (string \<times> column list) list \<Rightarrow> string list \<times> val list \<Rightarrow> error + (string list \<times> val list)" where
  "where_indexes_kv rval [] kv = Inr kv"
| "where_indexes_kv rval ((name, cols) # rest) kv =
     (case getKV rval cols kv of
        Inl err \<Rightarrow> Inl err
      | Inr (True, kv') \<Rightarrow> Inr kv'
      | Inr (False, kv') \<Rightarrow> where_indexes_kv rval rest kv')"

text \<open>\<open>for index, key := range keys { sql.WhereStmt().And("{"+key+"}=?", vals[index]) }\<close>\<close>

fun where_conds :: "string list \<Rightarrow> val list \<Rightarrow> WhereStmt \<Rightarrow> error + WhereStmt" where
  "where_conds [] vals w = Inr w"
| "where_conds (key # keys) [] w = Inl Panic"
| "where_conds (key # keys) (v # vals) w =
     where_conds keys vals (And w (''{'' @ key @ ''}=?'') v)"

text \<open>
  \<open>where(sql, m, rval)\<close> of sqlbuilder.go: \<open>w\<close> is the WHERE clause of the statement
  \<open>sql\<close> before the call; the result is the clause after it, or the error.
\<close>

definition where_sqlbuilder :: "WhereStmt \<Rightarrow> model \<Rightarrow> obj \<Rightarrow> error + WhereStmt" where
  "where_sqlbuilder w m rval =
     (case getKV rval (PK m) ([], []) of
        Inl err \<Rightarrow> Inl err
      | Inr (ok, kv) \<Rightarrow>
          (case (if \<not> ok then where_indexes_kv rval (UniqueIndexes m) kv else Inr kv) of
             Inl err \<Rightarrow> Inl err
           | Inr (keys, vals) \<Rightarrow>
               if length keys = 0 then Inl ErrNoWhereKey
               else where_conds keys vals w))"

fun insert_cols :: "obj \<Rightarrow> (string \<times> column) list \<Rightarrow> InsertStmt \<Rightarrow> error + InsertStmt" where
  "insert_cols rval [] sql = Inr sql"
| "insert_cols rval ((name, col) # rest) sql =
     (case FieldByName rval (GoName col) of
        Inl err \<Rightarrow> Inl err
      | Inr None \<Rightarrow> Inl (ErrFieldNotFound (GoName col))
      | Inr (Some field) \<Rightarrow>
          (case iface_eq (Zero col) field of
             Inl err \<Rightarrow> Inl err
           | Inr isZero \<Rightarrow>
               if isZero \<and> (IsAI col \<or> HasDefault col)
               then insert_cols rval rest sql
               else insert_cols rval rest (KeyValue sql (''{'' @ name @ ''}'') field)))"

text \<open>
  \<open>insert(e, v)\<close>: the statement on which the source then calls \<open>Exec()\<close>, or the error
  returned before that.
\<close>

definition insert_stmt :: "(obj \<Rightarrow> error + model) \<Rightarrow> obj \<Rightarrow> error + InsertStmt" where
  "insert_stmt NewModel v =
     (case getModel NewModel v of
        Inl err \<Rightarrow> Inl err
      | Inr (m, rval) \<Rightarrow> insert_cols rval (Cols m) (Insert (''{#'' @ ModelName m @ ''}'')))"




text \<open>The column loop of \<open>buildInsertManySQL\<close> for the first element.\<close>

fun many_first_cols :: "obj \<Rightarrow> (string \<times> column) list \<Rightarrow> InsertStmt \<times> string list \<Rightarrow> error + (InsertStmt \<times> string list)" where
  "many_first_cols irval [] (sql, keys) = Inr (sql, keys)"
| "many_first_cols irval ((name, col) # rest) (sql, keys) =
     (case FieldByName irval (GoName col) of
        Inl err \<Rightarrow> Inl err
      | Inr None \<Rightarrow> Inl (ErrFieldNotFound (GoName col))
      | Inr (Some field) \<Rightarrow>
          (case iface_eq (Zero col) field of
             Inl err \<Rightarrow> Inl err
           | Inr isZero \<Rightarrow>
               if isZero \<and> (IsAI col \<or> HasDefault col)
               then many_first_cols irval rest (sql, keys)
               else many_first_cols irval rest
                      (KeyValue sql (''{'' @ name @ ''}'') field, keys @ [name])))"

text \<open>The loop over \<open>keys\<close> of \<open>buildInsertManySQL\<close> for every later element.\<close>

fun many_vals :: "model \<Rightarrow> obj \<Rightarrow> string list \<Rightarrow> val list \<Rightarrow> error + val list" where
  "many_vals m irval [] vals = Inr vals"
| "many_vals m irval (name # keys) vals =
     (case map_of (Cols m) name of
        None \<Rightarrow> Inl (ErrUnknownColumn name)
      | Some col \<Rightarrow>
          (case FieldByName irval (GoName col) of
             Inl err \<Rightarrow> Inl err
           | Inr None \<Rightarrow> Inl (ErrFieldNotFound (GoName col))
           | Inr (Some field) \<Rightarrow>
               (case iface_eq (Zero col) field of
                  Inl err \<Rightarrow> Inl err
                | Inr isZero \<Rightarrow>
                    if isZero \<and> (IsAI col \<or> HasDefault col)
                    then many_vals m irval keys vals
                    else many_vals m irval keys (vals @ [field]))))"

text \<open>
  The loop \<open>for i := 0; i < rval.Len(); i++\<close> of \<open>buildInsertManySQL\<close>, from index
  \<open>i\<close> on; the state is the statement, \<open>keys\<close> and \<open>firstType\<close>.
\<close>

fun buildInsertMany_loop :: "(obj \<Rightarrow> error + model) \<Rightarrow> obj list \<Rightarrow> nat \<Rightarrow> InsertStmt \<times> string list \<times> string \<Rightarrow> error + InsertStmt" where
  "buildInsertMany_loop NewModel [] i (sql, keys, firstType) = Inr sql"
| "buildInsertMany_loop NewModel (x # xs) i (sql, keys, firstType) =
     (case getModel NewModel x of
        Inl err \<Rightarrow> Inl err
      | Inr (m, irval) \<Rightarrow>
          if i = 0 then
            (case many_first_cols irval (Cols m) (Table sql (''{#'' @ ModelName m @ ''}''), keys) of
               Inl err \<Rightarrow> Inl err
             | Inr (sql', keys') \<Rightarrow>
                 buildInsertMany_loop NewModel xs (Suc i) (sql', keys', TypeOf irval))
          else if firstType \<noteq> TypeOf irval then Inl ErrMixedTypes
          else
            (case many_vals m irval keys [] of
               Inl err \<Rightarrow> Inl err
             | Inr vals \<Rightarrow>
                 buildInsertMany_loop NewModel xs (Suc i) (Values sql vals, keys, firstType)))"

definition buildInsertManySQL :: "(obj \<Rightarrow> error + model) \<Rightarrow> obj list \<Rightarrow> error + InsertStmt" where
  "buildInsertManySQL NewModel rval = buildInsertMany_loop NewModel rval 0 (Insert [], [], [])"

section \<open>Package fetch\<close>

text \<open>
  The values \<open>Object\<close> works on through reflection. A pointer owns what it points to
  (receivers in which two pointers share one record are not modelled). A nil pointer
  carries the zero value of its element type, which is what
  \<open>reflect.New(vf.Type().Elem())\<close> allocates for it; a slice and an array carry the
  zero value of their element type, from which \<open>val.Type().Elem()\<close> is read. A struct
  is the list of its fields in the order of declaration. Types are finite trees, so a
  struct type that contains a pointer to itself is not a value of this type.
\<close>

record field =
  FieldName :: string
  FieldTag :: string
  Anonymous :: bool

datatype gval =
    Scalar val
  | NilPtr gval
  | Pointer gval
  | Slice gval "gval list"
  | Array gval "gval list"
  | Record "(field \<times> gval) list"

text \<open>
  \<open>for vf.Kind() == reflect.Ptr { if vf.IsNil() { vf.Set(reflect.New(vf.Type().Elem())) };
  vf = vf.Elem() }\<close>: every nil pointer on the way down is replaced by a pointer to a
  new zero value.
\<close>

fun instantiate :: "gval \<Rightarrow> gval" where
  "instantiate (NilPtr z) = Pointer (instantiate z)"
| "instantiate (Pointer v) = Pointer (instantiate v)"
| "instantiate v = v"

text \<open>\<open>for itemType.Kind() == reflect.Ptr { itemType = itemType.Elem() }\<close>, on the zero value of the type.\<close>

fun strip_ptr :: "gval \<Rightarrow> gval" where
  "strip_ptr (NilPtr z) = strip_ptr z"
| "strip_ptr (Pointer v) = strip_ptr v"
| "strip_ptr v = v"

fun isRecord :: "gval \<Rightarrow> bool" where
  "isRecord (Record fs) = True"
| "isRecord v = False"

text \<open>
  \<open>unicode.IsUpper(rune(field.Name[0]))\<close>: the first byte of the name, read as a code
  point of Latin-1.
\<close>

definition IsUpper :: "char \<Rightarrow> bool" where
  "IsUpper c = (let n = (of_char c :: nat) in
      (65 \<le> n \<and> n \<le> 90) \<or> (192 \<le> n \<and> n \<le> 214) \<or> (216 \<le> n \<and> n \<le> 222))"

text \<open>
  \<open>t.Get(tags, key)\<close> of the package internal/tags, which is not in the sources, is a
  parameter: the arguments of the property \<open>key\<close> in the tag, if it is there.
\<close>

type_synonym tags_get = "string \<Rightarrow> string \<Rightarrow> string list option"

text \<open>\<open>getName\<close>; \<open>FieldTag\<close> is \<open>field.Tag.Get("orm")\<close>, and \<open>name[0]\<close> of an empty list panics.\<close>

definition getName :: "tags_get \<Rightarrow> field \<Rightarrow> error + string" where
  "getName tget f =
     (let tags = FieldTag f;
          byName = (case FieldName f of
                      [] \<Rightarrow> Inr []
                    | c # cs \<Rightarrow> if IsUpper c then Inr (FieldName f) else Inr [])
      in if length tags > 0 then
           (if hd tags = CHR ''-'' then Inr []
            else (case tget tags ''name'' of
                    Some [] \<Rightarrow> Inl Panic
                  | Some (n # ns) \<Rightarrow> Inr n
                  | None \<Rightarrow> byName))
         else byName)"

text \<open>
  A \<open>reflect.Value\<close> that stands for a field of the receiver is the path to it: the
  indexes of the fields to enter, outermost first (pointers on the way are followed).
  \<open>map[string]reflect.Value\<close> is a list of names with their paths.
\<close>

type_synonym path = "nat list"
type_synonym field_map = "(string \<times> path) list"

lemma size_instantiate [simp]: "size (instantiate v) = size v"
  by (induction v rule: instantiate.induct) auto

text \<open>
  \<open>parseObject(v, ret)\<close>, and its loop over the fields from index \<open>i\<close> on. \<open>p\<close> is the
  path of \<open>v\<close>. The value comes back with the nil pointers that were instantiated, next
  to the error and the map. The error of the call for an anonymous field is dropped,
  as in the source. Fields that get a name are taken to be exported.
\<close>

function (sequential) parseObject :: "tags_get \<Rightarrow> gval \<Rightarrow> path \<Rightarrow> field_map \<Rightarrow> gval \<times> error option \<times> field_map"
  and parseFields :: "tags_get \<Rightarrow> (field \<times> gval) list \<Rightarrow> nat \<Rightarrow> path \<Rightarrow> field_map \<Rightarrow> (field \<times> gval) list \<times> error option \<times> field_map"
where
  "parseObject tget (Pointer v) p ret =
     (case parseObject tget v p ret of (v', err, ret') \<Rightarrow> (Pointer v', err, ret'))"
| "parseObject tget (Record fs) p ret =
     (case parseFields tget fs 0 p ret of (fs', err, ret') \<Rightarrow> (Record fs', err, ret'))"
| "parseObject tget v p ret = (v, Some ErrInvalidKind, ret)"
| "parseFields tget [] i p ret = ([], None, ret)"
| "parseFields tget ((f, vf) # rest) i p ret =
     (if Anonymous f then
        (case parseObject tget vf (p @ [i]) ret of
           (vf', err, ret') \<Rightarrow>
             (case parseFields tget rest (Suc i) p ret' of
                (rest', err', ret'') \<Rightarrow> ((f, vf') # rest', err', ret'')))
      else
        (case getName tget f of
           Inl err \<Rightarrow> ((f, vf) # rest, Some err, ret)
         | Inr name \<Rightarrow>
             if name = [] then
               (case parseFields tget rest (Suc i) p ret of
                  (rest', err', ret') \<Rightarrow> ((f, vf) # rest', err', ret'))
             else if isRecord (strip_ptr (instantiate vf)) then
               (case parseObject tget (instantiate vf) (p @ [i]) [] of
                  (vf', Some err, items) \<Rightarrow> ((f, vf') # rest, Some err, ret)
                | (vf', None, items) \<Rightarrow>
                    (case parseFields tget rest (Suc i) p
                            (fold (\<lambda>(subname, val) r. AList.update (name @ ''.'' @ subname) val r) items ret) of
                       (rest', err', ret') \<Rightarrow> ((f, vf') # rest', err', ret')))
             else if map_of ret name \<noteq> None then
               ((f, instantiate vf) # rest, Some (ErrDuplicateName name), ret)
             else
               (case parseFields tget rest (Suc i) p (AList.update name (p @ [i]) ret) of
                  (rest', err', ret') \<Rightarrow> ((f, instantiate vf) # rest', err', ret'))))"
  by pat_completeness auto
termination
  by (relation "measure (\<lambda>x. case x of Inl (tget, v, p, ret) \<Rightarrow> size v
                                      | Inr (tget, fs, i, p, ret) \<Rightarrow> size_list (size_prod (\<lambda>_. 0) size) fs)")
     auto

text \<open>
  \<open>getColumns(v, cols)\<close>: for every column the path of its field, or \<open>None\<close> for the
  placeholder that takes the value of a column with no field.
\<close>

definition getColumns :: "tags_get \<Rightarrow> gval \<Rightarrow> string list \<Rightarrow> gval \<times> (error + path option list)" where
  "getColumns tget v cols =
     (case parseObject tget v [] [] of
        (v', Some err, items) \<Rightarrow> (v', Inl err)
      | (v', None, items) \<Rightarrow> (v', Inr (map (\<lambda>col. map_of items col) cols)))"

text \<open>Writing through the address of a field: the value at the path is replaced.\<close>

fun set_at :: "path \<Rightarrow> gval \<Rightarrow> gval \<Rightarrow> gval"
  and set_in_fields :: "nat \<Rightarrow> path \<Rightarrow> gval \<Rightarrow> (field \<times> gval) list \<Rightarrow> (field \<times> gval) list"
where
  "set_at p x (Pointer v) = Pointer (set_at p x v)"
| "set_at [] x v = x"
| "set_at (i # p) x (Record fs) = Record (set_in_fields i p x fs)"
| "set_at (i # p) x v = v"
| "set_in_fields i p x [] = []"
| "set_in_fields 0 p x ((f, v) # fs) = (f, set_at p x v) # fs"
| "set_in_fields (Suc i) p x ((f, v) # fs) = (f, v) # set_in_fields i p x fs"

text \<open>
  The driver's rows. \<open>Columns\<close> is the result of \<open>rows.Columns()\<close>; \<open>Data\<close> holds the
  rows not read yet, and \<open>rows.Next()\<close> takes the first of them. A row holds, for each
  column, the value that \<open>Scan\<close> converts and stores, or the error of that conversion.
  \<open>rows.Scan(buff...)\<close> first compares the number of destinations with the number of
  columns, then stores column by column and returns at the first error: what it stored
  before stays stored.
\<close>

type_synonym row = "(error + val) list"

fun Scan_into :: "gval \<Rightarrow> path option list \<Rightarrow> row \<Rightarrow> error option \<times> gval" where
  "Scan_into v (t # buff) (Inl err # xs) = (Some err, v)"
| "Scan_into v (Some p # buff) (Inr x # xs) = Scan_into (set_at p (Scalar x) v) buff xs"
| "Scan_into v (None # buff) (Inr x # xs) = Scan_into v buff xs"
| "Scan_into v buff xs = (None, v)"

definition Scan :: "row \<Rightarrow> path option list \<Rightarrow> gval \<Rightarrow> error option \<times> gval" where
  "Scan r buff v =
     (if length buff \<noteq> length r then (Some (ErrOther ''sql: expected destination arguments''), v)
      else Scan_into v buff r)"

text \<open>
  The method \<open>AfterFetch\<close> of the user's type is a parameter: \<open>None\<close> when the dynamic
  type of the value does not implement \<open>AfterFetcher\<close>, else the error returned and the
  value after the call. What the method does to a struct passed by value is lost.
\<close>

type_synonym hook = "gval \<Rightarrow> (error option \<times> gval) option"

definition afterFetch :: "hook \<Rightarrow> gval \<Rightarrow> error option \<times> gval" where
  "afterFetch h v =
     (case h v of
        None \<Rightarrow> (None, v)
      | Some (err, v') \<Rightarrow> (err, case v of Pointer s \<Rightarrow> v' | _ \<Rightarrow> v))"

record rows =
  Columns :: "error + string list"
  Data :: "row list"

text \<open>
  What a call leaves behind: the two results, the receiver and the rows not read.
\<close>

record fetched =
  fcount :: nat
  ferr :: "error option"
  fobj :: gval
  frows :: "row list"

definition fetchOnceObj :: "hook \<Rightarrow> tags_get \<Rightarrow> gval \<Rightarrow> rows \<Rightarrow> fetched" where
  "fetchOnceObj h tget v rs =
     (case Columns rs of
        Inl err \<Rightarrow> \<lparr>fcount = 0, ferr = Some err, fobj = v, frows = Data rs\<rparr>
      | Inr cols \<Rightarrow>
          (case getColumns tget v cols of
             (v1, Inl err) \<Rightarrow> \<lparr>fcount = 0, ferr = Some err, fobj = v1, frows = Data rs\<rparr>
           | (v1, Inr buff) \<Rightarrow>
               (case Data rs of
                  [] \<Rightarrow> \<lparr>fcount = 0, ferr = None, fobj = v1, frows = []\<rparr>
                | r # rest \<Rightarrow>
                    (case Scan r buff v1 of
                       (Some err, v2) \<Rightarrow> \<lparr>fcount = 0, ferr = Some err, fobj = v2, frows = rest\<rparr>
                     | (None, v2) \<Rightarrow>
                         (case afterFetch h v2 of
                            (Some err, v3) \<Rightarrow> \<lparr>fcount = 0, ferr = Some err, fobj = v3, frows = rest\<rparr>
                          | (None, v3) \<Rightarrow> \<lparr>fcount = 1, ferr = None, fobj = v3, frows = rest\<rparr>)))))"

text \<open>
  The loop \<open>for i := 0; (i < l) && rows.Next(); i++\<close> of \<open>fetchObjToFixedSlice\<close>, over
  the elements from index \<open>i\<close> on.
\<close>

fun fixed_loop :: "hook \<Rightarrow> tags_get \<Rightarrow> string list \<Rightarrow> gval list \<Rightarrow> row list \<Rightarrow> error option \<times> gval list \<times> row list" where
  "fixed_loop h tget cols [] data = (None, [], data)"
| "fixed_loop h tget cols (x # xs) [] = (None, x # xs, [])"
| "fixed_loop h tget cols (x # xs) (r # data) =
     (case getColumns tget x cols of
        (x1, Inl err) \<Rightarrow> (Some err, x1 # xs, data)
      | (x1, Inr buff) \<Rightarrow>
          (case Scan r buff x1 of
             (Some err, x2) \<Rightarrow> (Some err, x2 # xs, data)
           | (None, x2) \<Rightarrow>
               (case afterFetch h x2 of
                  (Some err, x3) \<Rightarrow> (Some err, x3 # xs, data)
                | (None, x3) \<Rightarrow>
                    (case fixed_loop h tget cols xs data of
                       (err, xs', data') \<Rightarrow> (err, x3 # xs', data')))))"

definition fetchObjToFixedSlice :: "hook \<Rightarrow> tags_get \<Rightarrow> gval \<Rightarrow> gval list \<Rightarrow> rows \<Rightarrow> nat \<times> error option \<times> gval list \<times> row list" where
  "fetchObjToFixedSlice h tget z xs rs =
     (if \<not> isRecord (strip_ptr z) then (0, Some ErrInvalidKind, xs, Data rs)
      else (case Columns rs of
              Inl err \<Rightarrow> (0, Some err, xs, Data rs)
            | Inr cols \<Rightarrow>
                (case fixed_loop h tget cols xs (Data rs) of
                   (Some err, xs', data') \<Rightarrow> (0, Some err, xs', data')
                 | (None, xs', data') \<Rightarrow> (length xs, None, xs', data'))))"

text \<open>
  The loop \<open>for i := 0; rows.Next(); i++\<close> of \<open>fetchObjToSlice\<close>: \<open>done\<close> are the
  elements before index \<open>i\<close>, \<open>xs\<close> the elements from \<open>i\<close> on. \<open>reflect.Append\<close> of a
  \<open>reflect.New(itemType)\<close> panics unless the elements of the slice are pointers to the
  struct itself.
\<close>

fun slice_loop :: "hook \<Rightarrow> tags_get \<Rightarrow> string list \<Rightarrow> gval \<Rightarrow> gval list \<Rightarrow> gval list \<Rightarrow> row list \<Rightarrow> nat \<Rightarrow> nat \<times> error option \<times> gval list \<times> row list" where
  "slice_loop h tget cols z done xs [] count = (count, None, done @ xs, [])"
| "slice_loop h tget cols z done xs (r # data) count =
     (case (case xs of
              [] \<Rightarrow> (case z of
                        NilPtr t \<Rightarrow> if isRecord t then Inr (Pointer t, []) else Inl Panic
                      | _ \<Rightarrow> Inl Panic)
            | x # xs' \<Rightarrow> Inr (x, xs')) of
        Inl err \<Rightarrow> (0, Some err, done @ xs, data)
      | Inr (x, xs') \<Rightarrow>
          (case getColumns tget x cols of
             (x1, Inl err) \<Rightarrow> (0, Some err, done @ x1 # xs', data)
           | (x1, Inr buff) \<Rightarrow>
               (case Scan r buff x1 of
                  (Some err, x2) \<Rightarrow> (0, Some err, done @ x2 # xs', data)
                | (None, x2) \<Rightarrow>
                    (case afterFetch h x2 of
                       (Some err, x3) \<Rightarrow> (0, Some err, done @ x3 # xs', data)
                     | (None, x3) \<Rightarrow> slice_loop h tget cols z (done @ [x3]) xs' data (Suc count)))))"

definition fetchObjToSlice :: "hook \<Rightarrow> tags_get \<Rightarrow> gval \<Rightarrow> gval list \<Rightarrow> rows \<Rightarrow> nat \<times> error option \<times> gval list \<times> row list" where
  "fetchObjToSlice h tget z xs rs =
     (if \<not> isRecord (strip_ptr z) then (0, Some ErrInvalidKind, xs, Data rs)
      else (case Columns rs of
              Inl err \<Rightarrow> (0, Some err, xs, Data rs)
            | Inr cols \<Rightarrow> slice_loop h tget cols z [] xs (Data rs) 0))"

text \<open>\<open>Object(rows, obj)\<close> and the deprecated \<open>Obj(obj, rows)\<close>.\<close>

fun Object :: "hook \<Rightarrow> tags_get \<Rightarrow> rows \<Rightarrow> gval \<Rightarrow> fetched" where
  "Object h tget rs (Pointer (Slice z xs)) =
     (case fetchObjToSlice h tget z xs rs of
        (n, err, xs', data) \<Rightarrow> \<lparr>fcount = n, ferr = err, fobj = Pointer (Slice z xs'), frows = data\<rparr>)"
| "Object h tget rs (Pointer (Array z xs)) =
     (case fetchObjToFixedSlice h tget z xs rs of
        (n, err, xs', data) \<Rightarrow> \<lparr>fcount = n, ferr = err, fobj = Pointer (Array z xs'), frows = data\<rparr>)"
| "Object h tget rs (Pointer (Record fs)) =
     (case fetchOnceObj h tget (Record fs) rs of
        r \<Rightarrow> r\<lparr>fobj := Pointer (fobj r)\<rparr>)"
| "Object h tget rs (Slice z xs) =
     (case fetchObjToFixedSlice h tget z xs rs of
        (n, err, xs', data) \<Rightarrow> \<lparr>fcount = n, ferr = err, fobj = Slice z xs', frows = data\<rparr>)"
| "Object h tget rs obj = \<lparr>fcount = 0, ferr = Some ErrInvalidKind, fobj = obj, frows = Data rs\<rparr>"

definition Obj :: "hook \<Rightarrow> tags_get \<Rightarrow> gval \<Rightarrow> rows \<Rightarrow> fetched" where
  "Obj h tget obj rs = Object h tget rs obj"

section \<open>The model compiler\<close>

text \<open>
  Modelled from the spec: the model compiler (\<open>NewModel\<close>, \<open>parseColumn\<close>, \<open>setNullable\<close>,
  \<open>setAI\<close>, \<open>setDefault\<close>, \<open>setPK\<close>) is not in the sources; only its tests are
  (column_test.go, model_test.go). The definitions of this section follow section 4.1
  and the invariants of section 3 of the specification, and return what the tests
  expect. Only the properties that read or write the nullable flag, the default, the
  AI column and the primary key are modelled. The column under construction has the
  index \<open>length (CCols m)\<close>; the AI column and the primary key are kept as indexes.
\<close>

record ccolumn =
  CName :: string
  CGoType :: gotype
  CNullable :: bool
  CHasDefault :: bool
  CDefault :: string

record cmodel =
  CCols :: "ccolumn list"
  CAI :: "nat option"
  CPK :: "nat list"

datatype property =
    P_nullable "string list"
  | P_ai "string list"
  | P_default "string list"
  | P_pk "string list"

text \<open>Modelled from the spec: the argument of \<open>nullable\<close> is one of true, T, 1 or false, 0, in any case.\<close>

fun to_lower :: "char \<Rightarrow> char" where
  "to_lower (Char b0 b1 b2 b3 b4 b5 b6 b7) =
     (let n = (of_char (Char b0 b1 b2 b3 b4 b5 b6 b7) :: nat)
      in if 65 \<le> n \<and> n \<le> 90 then Char b0 b1 b2 b3 b4 True b6 b7
         else Char b0 b1 b2 b3 b4 b5 b6 b7)"

definition parse_bool :: "string \<Rightarrow> bool option" where
  "parse_bool s =
     (let l = map to_lower s in
      if l = ''true'' \<or> l = ''t'' \<or> l = ''1'' then Some True
      else if l = ''false'' \<or> l = ''0'' then Some False
      else None)"

definition is_number :: "string \<Rightarrow> bool" where
  "is_number s = (s \<noteq> [] \<and> list_all (\<lambda>c. 48 \<le> (of_char c :: nat) \<and> (of_char c :: nat) \<le> 57) s)"

text \<open>Modelled from the spec: \<open>IsAI()\<close> of the column under construction.\<close>

definition IsAI_of :: "cmodel \<Rightarrow> bool" where
  "IsAI_of m = (CAI m = Some (length (CCols m)))"

text \<open>Modelled from the spec: "An AI column cannot also be declared nullable"; no argument means true.\<close>

definition setNullable :: "cmodel \<Rightarrow> ccolumn \<Rightarrow> string list \<Rightarrow> error + ccolumn" where
  "setNullable m col vals =
     (if IsAI_of m then Inl (ErrSchema ''nullable'' (CName col))
      else (case vals of
              [] \<Rightarrow> Inr (col\<lparr>CNullable := True\<rparr>)
            | [v] \<Rightarrow> (case parse_bool v of
                        None \<Rightarrow> Inl (ErrSchema ''nullable'' (CName col))
                      | Some b \<Rightarrow> Inr (col\<lparr>CNullable := b\<rparr>))
            | _ \<Rightarrow> Inl (ErrSchema ''nullable'' (CName col))))"

text \<open>
  Modelled from the spec: the AI column is integer-typed, not nullable, has no default,
  takes at most the pair (start, step), and is the only column of the primary key.
\<close>

definition setAI :: "cmodel \<Rightarrow> ccolumn \<Rightarrow> string list \<Rightarrow> error + cmodel" where
  "setAI m col vals =
     (if CHasDefault col then Inl (ErrSchema ''ai'' (CName col))
      else if CNullable col then Inl (ErrSchema ''ai'' (CName col))
      else if length vals > 2 \<or> \<not> list_all is_number vals then Inl (ErrSchema ''ai'' (CName col))
      else if CGoType col \<noteq> TInt then Inl (ErrSchema ''ai'' (CName col))
      else Inr (m\<lparr>CAI := Some (length (CCols m)), CPK := [length (CCols m)]\<rparr>))"

text \<open>Modelled from the spec: no default on the AI column or on a single-column primary key.\<close>

definition setDefault :: "cmodel \<Rightarrow> ccolumn \<Rightarrow> string list \<Rightarrow> error + ccolumn" where
  "setDefault m col vals =
     (case vals of
        [v] \<Rightarrow> if IsAI_of m \<or> CPK m = [length (CCols m)] then Inl (ErrSchema ''default'' (CName col))
               else Inr (col\<lparr>CHasDefault := True, CDefault := v\<rparr>)
      | _ \<Rightarrow> Inl (ErrSchema ''default'' (CName col)))"

text \<open>Modelled from the spec: \<open>pk\<close> takes no argument and appends the column to the primary key; an AI column is not given \<open>pk\<close>.\<close>

definition setPK :: "cmodel \<Rightarrow> ccolumn \<Rightarrow> string list \<Rightarrow> error + cmodel" where
  "setPK m col vals =
     (if vals \<noteq> [] then Inl (ErrSchema ''pk'' (CName col))
      else if IsAI_of m then Inl (ErrSchema ''pk'' (CName col))
      else Inr (m\<lparr>CPK := CPK m @ [length (CCols m)]\<rparr>))"

text \<open>Modelled from the spec: the properties of a tag are applied in order; the first error ends the compilation.\<close>

fun applyProperty :: "cmodel \<Rightarrow> ccolumn \<Rightarrow> property \<Rightarrow> error + (cmodel \<times> ccolumn)" where
  "applyProperty m col (P_nullable vals) =
     (case setNullable m col vals of Inl err \<Rightarrow> Inl err | Inr col' \<Rightarrow> Inr (m, col'))"
| "applyProperty m col (P_ai vals) =
     (case setAI m col vals of Inl err \<Rightarrow> Inl err | Inr m' \<Rightarrow> Inr (m', col))"
| "applyProperty m col (P_default vals) =
     (case setDefault m col vals of Inl err \<Rightarrow> Inl err | Inr col' \<Rightarrow> Inr (m, col'))"
| "applyProperty m col (P_pk vals) =
     (case setPK m col vals of Inl err \<Rightarrow> Inl err | Inr m' \<Rightarrow> Inr (m', col))"





section \<open>Notions of the specification\<close>





text \<open>
  A value of a comparable type: Go's \<open>==\<close> on interface values does not panic on it.
  Byte slices are not comparable.
\<close>

fun comparable :: "val \<Rightarrow> bool" where
  "comparable (VBytes b) = False"
| "comparable (VRawBytes b) = False"
| "comparable v = True"

text \<open>The field of a column, if the record has it, holds a value of a comparable type.\<close>

definition comparable_at :: "(string \<times> val) list \<Rightarrow> column \<Rightarrow> bool" where
  "comparable_at fs col = (case map_of fs (GoName col) of None \<Rightarrow> True | Some x \<Rightarrow> comparable x)"


section \<open>Example data\<close>

definition ex_engine :: engine where
  "ex_engine = \<lparr>Quote = (\<lambda>s. ''['' @ s @ '']''), Prefix = ''p_'', Exec = (\<lambda>sql args. None)\<rparr>"

definition ex_id :: column where
  "ex_id = \<lparr>Name = ''id'', GoName = ''ID'', GoType = TInt, Zero = VInt 0,
            HasDefault = False, IsAI = True\<rparr>"

definition ex_email :: column where
  "ex_email = \<lparr>Name = ''email'', GoName = ''Email'', GoType = TString, Zero = VString [],
               HasDefault = False, IsAI = False\<rparr>"

definition ex_name :: column where
  "ex_name = \<lparr>Name = ''name'', GoName = ''Name'', GoType = TString, Zero = VString [],
              HasDefault = False, IsAI = False\<rparr>"

text \<open>
  A model with the primary key \<open>id\<close> and two unique indexes, which \<open>range\<close> visits
  in the order given as parameter.
\<close>

definition ex_user :: "(string \<times> column list) list \<Rightarrow> model" where
  "ex_user idx = \<lparr>ModelName = ''user'',
                  Cols = [(''id'', ex_id), (''email'', ex_email), (''name'', ex_name)],
                  PK = [ex_id], UniqueIndexes = idx\<rparr>"

text \<open>The two unique indexes in the order in which they were added to the map.\<close>

definition ex_inserted :: "(string \<times> column list) list" where
  "ex_inserted = [(''u_email'', [ex_email]), (''u_name'', [ex_name])]"






text \<open>A model of two integer columns, with the primary key and the unique indexes as parameters.\<close>

definition ex_a :: column where
  "ex_a = \<lparr>Name = ''a'', GoName = ''A'', GoType = TInt, Zero = VInt 0,
           HasDefault = False, IsAI = False\<rparr>"

definition ex_b :: column where
  "ex_b = \<lparr>Name = ''b'', GoName = ''B'', GoType = TInt, Zero = VInt 0,
           HasDefault = False, IsAI = False\<rparr>"

definition ex_pair :: "column list \<Rightarrow> (string \<times> column list) list \<Rightarrow> model" where
  "ex_pair pk idx = \<lparr>ModelName = ''pair'', Cols = [(''a'', ex_a), (''b'', ex_b)],
                     PK = pk, UniqueIndexes = idx\<rparr>"

definition ex_fields_pair :: "(string \<times> val) list" where
  "ex_fields_pair = [(''A'', VInt 1), (''B'', VInt 2)]"

text \<open>Two records for a batch: the second has a zero id.\<close>

definition ex_fields_first :: "(string \<times> val) list" where
  "ex_fields_first = [(''ID'', VInt 5), (''Email'', VString ''a@b''), (''Name'', VString ''ann'')]"

definition ex_fields_second :: "(string \<times> val) list" where
  "ex_fields_second = [(''ID'', VInt 0), (''Email'', VString ''c@d''), (''Name'', VString ''bob'')]"

text \<open>Records, rows and hooks for the package fetch.\<close>

definition ex_f_id :: field where
  "ex_f_id = \<lparr>FieldName = ''ID'', FieldTag = ''name(id)'', Anonymous = False\<rparr>"

definition ex_f_email :: field where
  "ex_f_email = \<lparr>FieldName = ''Email'', FieldTag = [], Anonymous = False\<rparr>"

definition ex_f_nick :: field where
  "ex_f_nick = \<lparr>FieldName = ''Nick'', FieldTag = [], Anonymous = False\<rparr>"

definition ex_tget :: tags_get where
  "ex_tget tags key = (if tags = ''name(id)'' \<and> key = ''name'' then Some [''id''] else None)"

definition ex_rec :: "int \<Rightarrow> string \<Rightarrow> gval" where
  "ex_rec n email = Record [(ex_f_id, Scalar (VInt n)), (ex_f_email, Scalar (VString email))]"

definition ex_rows :: rows where
  "ex_rows = \<lparr>Columns = Inr [''id'', ''Email''],
              Data = [[Inr (VInt 0), Inr (VString ''email-0'')], [Inr (VInt 1), Inr (VString ''email-1'')]]\<rparr>"

definition ex_no_rows :: rows where
  "ex_no_rows = \<lparr>Columns = Inr [''id'', ''Email''], Data = []\<rparr>"

definition no_hook :: hook where
  "no_hook v = None"

definition ex_hook :: hook where
  "ex_hook v =
     (case v of
        Pointer (Record ((f, Scalar (VInt n)) # fs)) \<Rightarrow>
          Some (if n = 1 then Some (ErrOther ''hook'') else None, v)
      | _ \<Rightarrow> None)"

definition ex_with_nil :: gval where
  "ex_with_nil = Record [(ex_f_id, Scalar (VInt 7)), (ex_f_nick, NilPtr (Scalar (VString [])))]"




text \<open>
  A model of documents with a byte-slice column \<open>data\<close>, the primary key as parameter,
  and a document.
\<close>

definition ex_data :: column where
  "ex_data = \<lparr>Name = ''data'', GoName = ''Data'', GoType = TBytes, Zero = VBytes [],
              HasDefault = False, IsAI = False\<rparr>"

definition ex_doc :: "column list \<Rightarrow> model" where
  "ex_doc pk = \<lparr>ModelName = ''doc'', Cols = [(''id'', ex_id), (''data'', ex_data)],
                PK = pk, UniqueIndexes = []\<rparr>"

definition ex_fields_doc :: "(string \<times> val) list" where
  "ex_fields_doc = [(''ID'', VInt 7), (''Data'', VBytes ''abc'')]"

section \<open>The fetcher\<close>

lemmas ex_defs = ex_f_id_def ex_f_email_def ex_f_nick_def ex_tget_def ex_rec_def ex_rows_def
  ex_no_rows_def no_hook_def ex_hook_def ex_with_nil_def

lemmas fetch_defs = fetchObjToFixedSlice_def fetchObjToSlice_def fetchOnceObj_def getColumns_def
  getName_def IsUpper_def Scan_def afterFetch_def Let_def

text \<open>
  C1: a receiver that is a slice (not a pointer to one) or a pointer to an array should
  get at most \<open>len(receiver)\<close> rows, and the count returned should be the smaller of
  the number of rows and \<open>len(receiver)\<close>. With two rows and a slice of four records,
  \<open>fetchObjToFixedSlice\<close> fills two records and returns 4; with a pointer to an array
  of three it returns 3. With a slice of one record it fills it, returns 1 and leaves
  the second row unread.
\<close>

theorem fixed_slice_count_is_length:
  "Object no_hook ex_tget ex_rows
     (Slice (NilPtr (ex_rec 0 [])) [Pointer (ex_rec 0 []), Pointer (ex_rec 0 []), Pointer (ex_rec 0 []), Pointer (ex_rec 0 [])]) =
   \<lparr>fcount = 4, ferr = None,
    fobj = Slice (NilPtr (ex_rec 0 []))
             [Pointer (ex_rec 0 ''email-0''), Pointer (ex_rec 1 ''email-1''), Pointer (ex_rec 0 []), Pointer (ex_rec 0 [])],
    frows = []\<rparr>
   \<and> Object no_hook ex_tget ex_rows
     (Pointer (Array (ex_rec 0 []) [ex_rec 0 [], ex_rec 0 [], ex_rec 0 []])) =
   \<lparr>fcount = 3, ferr = None,
    fobj = Pointer (Array (ex_rec 0 []) [ex_rec 0 ''email-0'', ex_rec 1 ''email-1'', ex_rec 0 []]),
    frows = []\<rparr>
   \<and> Object no_hook ex_tget ex_rows (Slice (NilPtr (ex_rec 0 [])) [Pointer (ex_rec 0 [])]) =
   \<lparr>fcount = 1, ferr = None,
    fobj = Slice (NilPtr (ex_rec 0 [])) [Pointer (ex_rec 0 ''email-0'')],
    frows = [[Inr (VInt 1), Inr (VString ''email-1'')]]\<rparr>"
  by (simp add: ex_defs fetch_defs)

text \<open>
  C2: when \<open>AfterFetch\<close> returns an error, the fetch should stop and return the error
  with the count of the rows populated so far. The hook below fails on the second
  row: both rows are in the receiver, the first passed the hook, and the count
  returned is 0, for a pointer to a slice as for a slice.
\<close>

theorem hook_error_count_is_zero:
  "Object ex_hook ex_tget ex_rows (Pointer (Slice (NilPtr (ex_rec 0 [])) [])) =
   \<lparr>fcount = 0, ferr = Some (ErrOther ''hook''),
    fobj = Pointer (Slice (NilPtr (ex_rec 0 [])) [Pointer (ex_rec 0 ''email-0''), Pointer (ex_rec 1 ''email-1'')]),
    frows = []\<rparr>
   \<and> Object ex_hook ex_tget ex_rows (Slice (NilPtr (ex_rec 0 [])) [Pointer (ex_rec 0 []), Pointer (ex_rec 0 [])]) =
   \<lparr>fcount = 0, ferr = Some (ErrOther ''hook''),
    fobj = Slice (NilPtr (ex_rec 0 [])) [Pointer (ex_rec 0 ''email-0''), Pointer (ex_rec 1 ''email-1'')],
    frows = []\<rparr>"
  by (simp add: ex_defs fetch_defs)

text \<open>
  C10: with no rows, \<open>Object\<close> on a pointer to a record should return 0 and no error and
  leave every field as it was. \<open>fetchOnceObj\<close> calls \<open>getColumns\<close> before it asks for a
  row, and \<open>parseObject\<close> instantiates the nil pointer field \<open>Nick\<close>.
\<close>

theorem no_rows_instantiates_nil_pointer:
  "Object no_hook ex_tget ex_no_rows (Pointer ex_with_nil) =
   \<lparr>fcount = 0, ferr = None,
    fobj = Pointer (Record [(ex_f_id, Scalar (VInt 7)), (ex_f_nick, Pointer (Scalar (VString [])))]),
    frows = []\<rparr>"
  by (simp add: ex_defs fetch_defs)

text \<open>
  C9: the deprecated \<open>Obj(obj, rows)\<close> returns the same count and error as
  \<open>Object(rows, obj)\<close> and leaves the same receiver and rows behind.
\<close>

theorem Obj_is_Object_with_swapped_arguments:
  "Obj h tget obj rs = Object h tget rs obj"
  by (simp add: Obj_def)

section \<open>Single-row INSERT\<close>

lemma iface_eq_comparable: "comparable b \<Longrightarrow> iface_eq a b = Inr (a = b)"
  by (cases a; cases b) auto

lemma icols_KeyValue: "icols (KeyValue s c v) = icols s @ [c]"
  by (simp add: KeyValue_def)

lemma itable_KeyValue: "itable (KeyValue s c v) = itable s"
  by (simp add: KeyValue_def)

lemma insert_cols_valid:
  assumes "\<forall>(name, col) \<in> set cs. map_of fs (GoName col) \<noteq> None"
    and "\<forall>(name, col) \<in> set cs. comparable_at fs col"
  shows "insert_cols (Struct t fs) cs sql =
    Inr (fold (\<lambda>(name, col) s. KeyValue s (''{'' @ name @ ''}'') (the (map_of fs (GoName col))))
          (filter (\<lambda>(name, col). map_of fs (GoName col) \<noteq> Some (Zero col) \<or> \<not> (IsAI col \<or> HasDefault col)) cs) sql)"
  using assms
proof (induction cs arbitrary: sql)
  case Nil
  then show ?case by simp
next
  case (Cons a cs)
  obtain name col where a: "a = (name, col)" by (cases a)
  from Cons.prems(1) a obtain field where f: "map_of fs (GoName col) = Some field" by auto
  from Cons.prems(2) a f have c: "comparable field" by (simp add: comparable_at_def)
  from Cons.prems have rest: "\<forall>(name, col) \<in> set cs. map_of fs (GoName col) \<noteq> None"
    "\<forall>(name, col) \<in> set cs. comparable_at fs col" by simp_all
  show ?case using Cons.IH [OF rest] a f by (auto simp: iface_eq_comparable [OF c])
qed

lemma fold_KeyValue_icols:
  "icols (fold (\<lambda>(name, col) s. KeyValue s (f name) (g col)) xs sql) = icols sql @ map (\<lambda>(name, col). f name) xs"
  by (induction xs arbitrary: sql) (auto simp: icols_KeyValue)

lemma fold_KeyValue_itable:
  "itable (fold (\<lambda>(name, col) s. KeyValue s (f name) (g col)) xs sql) = itable sql"
  by (induction xs arbitrary: sql) (auto simp: itable_KeyValue)

lemma iargs_KeyValue_single: "iargs s = [r] \<Longrightarrow> iargs (KeyValue s c v) = [r @ [v]]"
  by (simp add: KeyValue_def)

lemma fold_KeyValue_iargs_single:
  "iargs sql = [r] \<Longrightarrow> iargs (fold (\<lambda>(name, col) s. KeyValue s (f name) (g col)) xs sql) = [r @ map (\<lambda>(name, col). g col) xs]"
  by (induction xs arbitrary: sql r) (auto simp: iargs_KeyValue_single)

lemma fold_KeyValue_iargs:
  assumes e: "iargs sql = []"
  shows "iargs (fold (\<lambda>(name, col) s. KeyValue s (f name) (g col)) xs sql) =
     (if xs = [] then [] else [map (\<lambda>(name, col). g col) xs])"
proof (cases xs)
  case Nil
  then show ?thesis using e by simp
next
  case (Cons a ys)
  obtain name col where a: "a = (name, col)" by (cases a)
  have "iargs (KeyValue sql (f name) (g col)) = [[] @ [g col]]" using e by (simp add: KeyValue_def)
  from fold_KeyValue_iargs_single [OF this, of f g ys] show ?thesis using Cons a by simp
qed

lemma insertMult_cols_valid:
  assumes "\<forall>(name, col) \<in> set cs. map_of fs (GoName col) \<noteq> None"
    and "\<forall>(name, col) \<in> set cs. comparable_at fs col"
  shows "insertMult_cols (Struct t fs) cs (keys, vals) =
    Inr (keys @ map fst (filter (\<lambda>(name, col). map_of fs (GoName col) \<noteq> Some (reflect_Zero (GoType col)) \<or> \<not> (IsAI col \<or> HasDefault col)) cs),
         vals @ map (\<lambda>(name, col). the (map_of fs (GoName col))) (filter (\<lambda>(name, col). map_of fs (GoName col) \<noteq> Some (reflect_Zero (GoType col)) \<or> \<not> (IsAI col \<or> HasDefault col)) cs))"
  using assms
proof (induction cs arbitrary: keys vals)
  case Nil
  then show ?case by simp
next
  case (Cons a cs)
  obtain name col where a: "a = (name, col)" by (cases a)
  from Cons.prems(1) a obtain field where f: "map_of fs (GoName col) = Some field" by auto
  from Cons.prems(2) a f have c: "comparable field" by (simp add: comparable_at_def)
  from Cons.prems have rest: "\<forall>(name, col) \<in> set cs. map_of fs (GoName col) \<noteq> None"
    "\<forall>(name, col) \<in> set cs. comparable_at fs col" by simp_all
  show ?case using Cons.IH [OF rest] a f by (auto simp: iface_eq_comparable [OF c])
qed

text \<open>
  For a record that has a field for every column of the model, each of a comparable
  type, \<open>insert\<close> of sqlbuilder.go hands to the statement exactly the columns whose
  value differs from the column's zero value or that are neither auto-increment nor
  carry a default.
\<close>

lemma insert_stmt_kept:
  assumes m: "NewModel v = Inr m"
    and v: "deref v = Struct t fs"
    and valid: "\<forall>(name, col) \<in> set (Cols m). map_of fs (GoName col) \<noteq> None"
    and comp: "\<forall>(name, col) \<in> set (Cols m). comparable_at fs col"
  shows "\<exists>stmt. insert_stmt NewModel v = Inr stmt
           \<and> itable stmt = ''{#'' @ ModelName m @ ''}''
           \<and> icols stmt = map (\<lambda>(name, col). ''{'' @ name @ ''}'')
                (filter (\<lambda>(name, col). map_of fs (GoName col) \<noteq> Some (Zero col)
                                        \<or> \<not> (IsAI col \<or> HasDefault col)) (Cols m))
           \<and> iargs stmt =
                (if filter (\<lambda>(name, col). map_of fs (GoName col) \<noteq> Some (Zero col)
                                        \<or> \<not> (IsAI col \<or> HasDefault col)) (Cols m) = [] then []
                 else [map (\<lambda>(name, col). the (map_of fs (GoName col)))
                        (filter (\<lambda>(name, col). map_of fs (GoName col) \<noteq> Some (Zero col)
                                        \<or> \<not> (IsAI col \<or> HasDefault col)) (Cols m))])"
proof -
  let ?P = "\<lambda>(name, col). map_of fs (GoName col) \<noteq> Some (Zero col) \<or> \<not> (IsAI col \<or> HasDefault col)"
  let ?stmt = "fold (\<lambda>(name, col) s. KeyValue s (''{'' @ name @ ''}'') (the (map_of fs (GoName col))))
          (filter ?P (Cols m)) (Insert (''{#'' @ ModelName m @ ''}''))"
  have run: "insert_stmt NewModel v = Inr ?stmt"
    using insert_cols_valid [OF valid comp] m v by (simp add: insert_stmt_def getModel_def)
  have c: "icols ?stmt = map (\<lambda>(name, col). ''{'' @ name @ ''}'') (filter ?P (Cols m))"
    by (simp add: fold_KeyValue_icols Insert_def)
  have t: "itable ?stmt = ''{#'' @ ModelName m @ ''}''"
    by (simp add: fold_KeyValue_itable Insert_def)
  have a: "iargs ?stmt = (if filter ?P (Cols m) = [] then []
                          else [map (\<lambda>(name, col). the (map_of fs (GoName col))) (filter ?P (Cols m))])"
    by (rule fold_KeyValue_iargs) (simp add: Insert_def)
  show ?thesis using run c t a by blast
qed

text \<open>
  The same for the statement text and the arguments that \<open>insertMult\<close> of impl.go builds
  for one record; it fails when no column is left.
\<close>

lemma insertOne_kept:
  assumes m: "NewModel v = Inr m"
    and v: "deref v = Struct t fs"
    and valid: "\<forall>(name, col) \<in> set (Cols m). map_of fs (GoName col) \<noteq> None"
    and comp: "\<forall>(name, col) \<in> set (Cols m). comparable_at fs col"
  shows "insertOne e NewModel v =
           (let kept = filter (\<lambda>(name, col). map_of fs (GoName col) \<noteq> Some (reflect_Zero (GoType col))
                                        \<or> \<not> (IsAI col \<or> HasDefault col)) (Cols m)
            in if kept = [] then Inl ErrNoColumns
               else Inr (''INSERT INTO '' @ Quote e (Prefix e @ ModelName m) @ ''(''
                         @ truncate_last 1 (concat (map (\<lambda>(name, col). Quote e name @ '','') kept))
                         @ '')VALUES(''
                         @ truncate_last 1 (concat (map (\<lambda>_. ''?,'') kept))
                         @ '')'',
                         map (\<lambda>(name, col). the (map_of fs (GoName col))) kept))"
proof -
  define kept where "kept = filter (\<lambda>(name, col). map_of fs (GoName col) \<noteq> Some (reflect_Zero (GoType col))
                                        \<or> \<not> (IsAI col \<or> HasDefault col)) (Cols m)"
  have cols: "insertMult_cols (Struct t fs) (Cols m) ([], []) =
      Inr (map fst kept, map (\<lambda>(name, col). the (map_of fs (GoName col))) kept)"
    unfolding kept_def using insertMult_cols_valid [OF valid comp, of t "[]" "[]"] by simp
  have q: "(\<lambda>col. Quote e col @ '','') \<circ> fst = (\<lambda>(name, col). Quote e name @ '','')" for e :: "'a engine_scheme"
    by (auto simp: fun_eq_iff)
  have h: "(\<lambda>_. ''?,'') \<circ> (\<lambda>(name, col). the (map_of fs (GoName col))) = (\<lambda>_. ''?,'')"
    by (auto simp: fun_eq_iff)
  have tr: "b \<noteq> [] \<Longrightarrow> truncate_last 1 (a @ b) = a @ truncate_last 1 b" for a b :: string
    by (cases b) (simp_all add: truncate_last_def)
  have ne1: "kept \<noteq> [] \<Longrightarrow> concat (map (\<lambda>(name, col). Quote e name @ '','') kept) \<noteq> []"
    by (cases kept) auto
  have ne2: "kept \<noteq> [] \<Longrightarrow> concat (map (\<lambda>_. ''?,'') kept) \<noteq> []"
    by (cases kept) auto
  have "insertOne e NewModel v =
           (if kept = [] then Inl ErrNoColumns
               else Inr (''INSERT INTO '' @ Quote e (Prefix e @ ModelName m) @ ''(''
                         @ truncate_last 1 (concat (map (\<lambda>(name, col). Quote e name @ '','') kept))
                         @ '')VALUES(''
                         @ truncate_last 1 (concat (map (\<lambda>_. ''?,'') kept))
                         @ '')'',
                         map (\<lambda>(name, col). the (map_of fs (GoName col))) kept))"
  proof (cases "kept = []")
    case True
    then show ?thesis using m v cols by (simp add: insertOne_def Let_def)
  next
    case False
    have tc: "b \<noteq> [] \<Longrightarrow> truncate_last (Suc 0) (c # b) = c # truncate_last (Suc 0) b" for c and b :: string
      by (cases b) (simp_all add: truncate_last_def)
    have ta: "b \<noteq> [] \<Longrightarrow> truncate_last (Suc 0) (a @ b) = a @ truncate_last (Suc 0) b" for a b :: string
      using tr [of b a] by simp
    show ?thesis using m v cols False ne1 [OF False] ne2 [OF False]
      by (simp add: insertOne_def Let_def q h tc ta)
  qed
  then show "insertOne e NewModel v =
           (let kept = filter (\<lambda>(name, col). map_of fs (GoName col) \<noteq> Some (reflect_Zero (GoType col))
                                        \<or> \<not> (IsAI col \<or> HasDefault col)) (Cols m)
            in if kept = [] then Inl ErrNoColumns
               else Inr (''INSERT INTO '' @ Quote e (Prefix e @ ModelName m) @ ''(''
                         @ truncate_last 1 (concat (map (\<lambda>(name, col). Quote e name @ '','') kept))
                         @ '')VALUES(''
                         @ truncate_last 1 (concat (map (\<lambda>_. ''?,'') kept))
                         @ '')'',
                         map (\<lambda>(name, col). the (map_of fs (GoName col))) kept))"
    unfolding Let_def kept_def .
qed

text \<open>
  C6: single-row INSERT should include a (column, placeholder) pair for exactly the
  columns whose value differs from the column's zero value or that are neither
  auto-increment nor carry a default, for every record value. The zero test of the
  code is \<open>==\<close> on two interface values: for a document with the byte-slice column
  \<open>data\<close> it panics, in \<open>insert\<close> of sqlbuilder.go and in \<open>insertMult\<close> of impl.go, where
  the column should have been included.
\<close>

theorem insert_panics_on_byte_slice_column:
  "insert_stmt (\<lambda>_. Inr (ex_doc [ex_id])) (Ptr (Struct ''Doc'' ex_fields_doc)) = Inl Panic
   \<and> insertOne ex_engine (\<lambda>_. Inr (ex_doc [ex_id])) (Ptr (Struct ''Doc'' ex_fields_doc)) = Inl Panic
   \<and> insertMult ex_engine (\<lambda>_. Inr (ex_doc [ex_id])) [Ptr (Struct ''Doc'' ex_fields_doc)] [] =
       (Some Panic, [])"
  by (simp add: insert_stmt_def getModel_def insertOne_def Insert_def KeyValue_def
      ex_doc_def ex_id_def ex_data_def ex_fields_doc_def ex_engine_def)

section \<open>Keyed WHERE synthesis\<close>

















text \<open>
  C4: with a primary key of two columns, both non-zero in the record, the keyed WHERE
  synthesis should emit one condition \<open>col=?\<close> per column, joined by AND. \<open>where\<close> of
  impl.go writes the two conditions of the primary key one after the other with no
  AND between them; the same columns as a unique index are joined by AND, and \<open>where\<close>
  of sqlbuilder.go hands one condition per column to \<open>And\<close>.
\<close>

theorem where_impl_primary_key_without_AND:
  "where_impl ex_engine ''DELETE FROM [p_pair]'' (ex_pair [ex_a, ex_b] []) (Struct ''Pair'' ex_fields_pair) =
     Inr (''DELETE FROM [p_pair] WHERE [a]=?[b]=?'', [VInt 1, VInt 2])
   \<and> where_impl ex_engine ''DELETE FROM [p_pair]'' (ex_pair [] [(''u'', [ex_a, ex_b])]) (Struct ''Pair'' ex_fields_pair) =
     Inr (''DELETE FROM [p_pair] WHERE [a]=? AND [b]=?'', [VInt 1, VInt 2])
   \<and> where_sqlbuilder [] (ex_pair [ex_a, ex_b] []) (Struct ''Pair'' ex_fields_pair) =
     Inr [(''{a}=?'', VInt 1), (''{b}=?'', VInt 2)]"
  by (simp add: where_impl_def checkCols_def where_sqlbuilder_def getKV_def And_def
      ex_pair_def ex_a_def ex_b_def ex_fields_pair_def ex_engine_def truncate_last_def)

section \<open>UPDATE\<close>


lemma usets_Set_col: "usets (Set_col s c v) = usets s @ [(c, v)]"
  and utable_Set_col: "utable (Set_col s c v) = utable s"
  and uwhere_Set_col: "uwhere (Set_col s c v) = uwhere s"
  by (simp_all add: Set_col_def)















section \<open>Batch INSERT\<close>

text \<open>
  C3: in a batch INSERT every values tuple should have as many entries as the column
  set of the first record. The first record below has a non-zero id, so \<open>id\<close> is in the
  column set; the second has a zero id, and \<open>buildInsertManySQL\<close> skips the column for
  it: its tuple has two entries for three columns.
\<close>

theorem buildInsertManySQL_short_tuple:
  "buildInsertManySQL (\<lambda>_. Inr (ex_user ex_inserted))
      [Ptr (Struct ''User'' ex_fields_first), Ptr (Struct ''User'' ex_fields_second)] =
     Inr \<lparr>itable = ''{#user}'', icols = [''{id}'', ''{email}'', ''{name}''],
          iargs = [[VInt 5, VString ''a@b'', VString ''ann''], [VString ''c@d'', VString ''bob'']]\<rparr>"
  by (simp add: buildInsertManySQL_def getModel_def Insert_def Table_def KeyValue_def Values_def
      ex_user_def ex_fields_first_def ex_fields_second_def ex_id_def ex_email_def ex_name_def)

section \<open>Auto-increment and nullable\<close>


lemma applyProperty_cols:
  "applyProperty m col p = Inr (m', col') \<Longrightarrow> CCols m' = CCols m"
  by (cases p)
     (auto simp: setNullable_def setAI_def setDefault_def setPK_def
           split: sum.splits option.splits list.splits if_splits)








end
